theory Spec2Isabelle
  imports Main "HOL-Library.Word" "HOL-Library.Sublist"
begin

section \<open>Protocol constants\<close>

text \<open>
  The three enumerations of \<^verbatim>\<open>librelay.py\<close>, each with the \<^verbatim>\<open>.name\<close> and
  \<^verbatim>\<open>.value\<close> of its members. Python integers are unbounded, so \<^verbatim>\<open>.value\<close> is an
  \<open>int\<close>; the byte that travels on the serial line is produced later by
  \<^verbatim>\<open>struct.pack('!B', value)\<close>.
\<close>

datatype APIAction = UNKNOWN | SET_STATE | QUERY

fun APIAction_name :: "APIAction \<Rightarrow> string" where
  "APIAction_name UNKNOWN = ''UNKNOWN''"
| "APIAction_name SET_STATE = ''SET_STATE''"
| "APIAction_name QUERY = ''QUERY''"

fun APIAction_value :: "APIAction \<Rightarrow> int" where
  "APIAction_value UNKNOWN = 0"
| "APIAction_value SET_STATE = 1"
| "APIAction_value QUERY = 2"

datatype RelayStates = ALL_ON | ALL_OFF | ONE_ON | ONE_OFF | TWO_ON | TWO_OFF

fun RelayStates_name :: "RelayStates \<Rightarrow> string" where
  "RelayStates_name ALL_ON = ''ALL_ON''"
| "RelayStates_name ALL_OFF = ''ALL_OFF''"
| "RelayStates_name ONE_ON = ''ONE_ON''"
| "RelayStates_name ONE_OFF = ''ONE_OFF''"
| "RelayStates_name TWO_ON = ''TWO_ON''"
| "RelayStates_name TWO_OFF = ''TWO_OFF''"

fun RelayStates_value :: "RelayStates \<Rightarrow> int" where
  "RelayStates_value ALL_ON = 100"
| "RelayStates_value ALL_OFF = 110"
| "RelayStates_value ONE_ON = 101"
| "RelayStates_value ONE_OFF = 111"
| "RelayStates_value TWO_ON = 102"
| "RelayStates_value TWO_OFF = 112"

text \<open>The members in definition order, as \<^verbatim>\<open>for member in RelayStates\<close> visits them.\<close>

definition RelayStates_members :: "RelayStates list" where
  "RelayStates_members = [ALL_ON, ALL_OFF, ONE_ON, ONE_OFF, TWO_ON, TWO_OFF]"

datatype RelayQueries = VERSION | STATUS

fun RelayQueries_name :: "RelayQueries \<Rightarrow> string" where
  "RelayQueries_name VERSION = ''VERSION''"
| "RelayQueries_name STATUS = ''STATUS''"

fun RelayQueries_value :: "RelayQueries \<Rightarrow> int" where
  "RelayQueries_value VERSION = 90"
| "RelayQueries_value STATUS = 91"

section \<open>Python values, exceptions and the serial line\<close>

type_synonym byte = "8 word"

text \<open>
  The two queues are attached by reference; a getter called through the dispatcher
  hands the queue object itself back, which \<open>VObj\<close> stands for.
\<close>

datatype objref = InputQueueObj | OutputQueueObj

text \<open>
  The fragment of Python values a command descriptor, a result or a queue entry is drawn
  from. Dictionary keys are strings; strings are sequences of ASCII characters.
\<close>

datatype pyval =
    VNone
  | VBool bool
  | VInt int
  | VStr string
  | VBytes "byte list"
  | VList "pyval list"
  | VDict "(string \<times> pyval) list"
  | VObj objref

text \<open>
  Exceptions. Every one of them is a subclass of \<^verbatim>\<open>Exception\<close>, so
  \<^verbatim>\<open>except Exception\<close> catches each. \<open>SerialException\<close> and \<open>OSError\<close> are what the
  serial library raises.
\<close>

datatype pyerr =
    TypeError
  | AttributeError
  | KeyError
  | ValueError
  | StructError
  | RuntimeError
  | SerialException
  | OSError

datatype parity = PARITY_NONE | PARITY_EVEN | PARITY_ODD | PARITY_MARK | PARITY_SPACE

text \<open>The arguments of \<^verbatim>\<open>serial.Serial(device, bauds, parity=, bytesize=, stopbits=)\<close>.\<close>

record serial_cfg =
  port :: string
  baudrate :: int
  parity :: parity
  bytesize :: int
  stopbits :: int

text \<open>
  What happens on the serial line and the clock, in order: a successful open, a call of
  \<^verbatim>\<open>write\<close> with its bytes, a \<^verbatim>\<open>time.sleep\<close> (in milliseconds), a call of
  \<^verbatim>\<open>read(size=n)\<close>, a call of \<^verbatim>\<open>close\<close>.
\<close>

datatype event =
    EvOpen serial_cfg
  | EvWrite "byte list"
  | EvSleep nat
  | EvRead nat
  | EvClose

text \<open>
  The serial library and the base class \<^verbatim>\<open>threading.Thread\<close> are not part of the
  repository: they are parameters. Each serial call sees the history of the line so far
  and either raises or returns. For an attribute name that the base classes provide,
  \<open>inherited\<close> tells how getting it and calling it without argument ends: with an
  exception or with a value; the base classes leave the fields and queues of this file
  alone.
\<close>

record env =
  serial_open :: "event list \<Rightarrow> serial_cfg \<Rightarrow> pyerr option"
  serial_write :: "event list \<Rightarrow> byte list \<Rightarrow> pyerr + pyval"
  serial_read :: "event list \<Rightarrow> nat \<Rightarrow> pyerr + pyval"
  serial_close :: "event list \<Rightarrow> pyerr option"
  inherited :: "string \<Rightarrow> (pyerr + pyval) option"

section \<open>The dispatcher object\<close>

text \<open>
  A \<^verbatim>\<open>queue.Queue\<close> without size limit: the entries waiting in it, oldest first, and
  its counter of unfinished tasks (\<^verbatim>\<open>put\<close> adds one, \<^verbatim>\<open>task_done\<close> takes one away
  and raises \<^verbatim>\<open>ValueError\<close> at zero).
\<close>

record pyqueue =
  items :: "pyval list"
  unfinished :: nat

text \<open>
  The fields of a \<^verbatim>\<open>LibRelay02\<close> instance (\<open>p_x\<close> is the field \<^verbatim>\<open>_x\<close>), together
  with the history of the serial line and what has been printed. The two queues are
  distinct objects.
\<close>

record relay =
  p_device :: string
  p_bauds :: int
  p_running :: bool
  p_filedesc :: "serial_cfg option"
  p_input_queue :: "pyqueue option"
  p_output_queue :: "pyqueue option"
  wire :: "event list"
  printed :: "pyerr list"

text \<open>
  How a call ends: it returns a value, it raises, or it blocks for ever in
  \<^verbatim>\<open>get\<close> on an empty queue. Each carries the state reached.
\<close>

datatype 'a res =
    Ret 'a relay
  | Exc pyerr relay
  | Blocks relay

fun state_of :: "'a res \<Rightarrow> relay" where
  "state_of (Ret x s) = s"
| "state_of (Exc e s) = s"
| "state_of (Blocks s) = s"

text \<open>Sequencing of two statements: the second runs only when the first returns.\<close>

fun then_do :: "'a res \<Rightarrow> ('a \<Rightarrow> relay \<Rightarrow> 'b res) \<Rightarrow> 'b res" where
  "then_do (Ret x s) f = f x s"
| "then_do (Exc e s) f = Exc e s"
| "then_do (Blocks s) f = Blocks s"

text \<open>\<^verbatim>\<open>LibRelay02.__init__\<close>, in a world where nothing has happened yet.\<close>

definition LibRelay02_init :: "string \<Rightarrow> int \<Rightarrow> relay" where
  "LibRelay02_init dev bd =
     \<lparr> p_device = dev, p_bauds = bd, p_running = True, p_filedesc = None,
       p_input_queue = None, p_output_queue = None, wire = [], printed = [] \<rparr>"

definition set_input_queue :: "relay \<Rightarrow> pyqueue \<Rightarrow> relay" where
  "set_input_queue st q = st\<lparr>p_input_queue := Some q\<rparr>"

definition set_output_queue :: "relay \<Rightarrow> pyqueue \<Rightarrow> relay" where
  "set_output_queue st q = st\<lparr>p_output_queue := Some q\<rparr>"

subsection \<open>Primitive calls\<close>

text \<open>\<^verbatim>\<open>struct.pack('!B', v)\<close>: one unsigned byte, or \<^verbatim>\<open>struct.error\<close> out of range.\<close>

definition pack_B :: "int \<Rightarrow> pyerr + byte list" where
  "pack_B v = (if 0 \<le> v \<and> v \<le> 255 then Inr [word_of_int v] else Inl StructError)"

text \<open>
  \<^verbatim>\<open>self._filedesc.write(b)\<close>, \<^verbatim>\<open>self._filedesc.read(size=n)\<close> and
  \<^verbatim>\<open>self._filedesc.close()\<close>: an attribute of \<^verbatim>\<open>None\<close> when the port was never
  opened, otherwise the call is made and the library decides.
\<close>

definition fd_write :: "env \<Rightarrow> relay \<Rightarrow> byte list \<Rightarrow> pyval res" where
  "fd_write en st bs =
     (case p_filedesc st of
        None \<Rightarrow> Exc AttributeError st
      | Some h \<Rightarrow>
          (case serial_write en (wire st) bs of
             Inl e \<Rightarrow> Exc e (st\<lparr>wire := wire st @ [EvWrite bs]\<rparr>)
           | Inr v \<Rightarrow> Ret v (st\<lparr>wire := wire st @ [EvWrite bs]\<rparr>)))"

definition fd_read :: "env \<Rightarrow> relay \<Rightarrow> nat \<Rightarrow> pyval res" where
  "fd_read en st n =
     (case p_filedesc st of
        None \<Rightarrow> Exc AttributeError st
      | Some h \<Rightarrow>
          (case serial_read en (wire st) n of
             Inl e \<Rightarrow> Exc e (st\<lparr>wire := wire st @ [EvRead n]\<rparr>)
           | Inr v \<Rightarrow> Ret v (st\<lparr>wire := wire st @ [EvRead n]\<rparr>)))"

definition fd_close :: "env \<Rightarrow> relay \<Rightarrow> pyval res" where
  "fd_close en st =
     (case p_filedesc st of
        None \<Rightarrow> Exc AttributeError st
      | Some h \<Rightarrow>
          (case serial_close en (wire st) of
             Some e \<Rightarrow> Exc e (st\<lparr>wire := wire st @ [EvClose]\<rparr>)
           | None \<Rightarrow> Ret VNone (st\<lparr>wire := wire st @ [EvClose]\<rparr>)))"

text \<open>\<^verbatim>\<open>time.sleep(0.1)\<close>: a tenth of a second, written in milliseconds.\<close>

definition sleep_100ms :: "relay \<Rightarrow> unit res" where
  "sleep_100ms st = Ret () (st\<lparr>wire := wire st @ [EvSleep 100]\<rparr>)"

subsection \<open>The direct queries and the generated setters\<close>

definition version :: "env \<Rightarrow> relay \<Rightarrow> pyval res" where
  "version en st =
     (case pack_B (RelayQueries_value VERSION) of
        Inl e \<Rightarrow> Exc e st
      | Inr to_write \<Rightarrow>
          then_do (fd_write en st to_write) (\<lambda>w st1.
          then_do (sleep_100ms st1) (\<lambda>u st2.
          fd_read en st2 2)))"

definition status :: "env \<Rightarrow> relay \<Rightarrow> pyval res" where
  "status en st =
     (case pack_B (RelayQueries_value STATUS) of
        Inl e \<Rightarrow> Exc e st
      | Inr to_write \<Rightarrow>
          then_do (fd_write en st to_write) (\<lambda>w st1.
          then_do (sleep_100ms st1) (\<lambda>u st2.
          fd_read en st2 1)))"

text \<open>
  The closure \<^verbatim>\<open>tmp_fct\<close> that \<^verbatim>\<open>__make_command_fct(instance, name, value)\<close> builds:
  pack, write, sleep, and return what \<^verbatim>\<open>write\<close> returned.
\<close>

definition tmp_fct :: "int \<Rightarrow> env \<Rightarrow> relay \<Rightarrow> pyval res" where
  "tmp_fct v en st =
     (case pack_B v of
        Inl e \<Rightarrow> Exc e st
      | Inr to_write \<Rightarrow>
          then_do (fd_write en st to_write) (\<lambda>r st1.
          then_do (sleep_100ms st1) (\<lambda>u st2.
          Ret r st2)))"

text \<open>\<^verbatim>\<open>str.lower()\<close> on ASCII text.\<close>

definition lower_char :: "char \<Rightarrow> char" where
  "lower_char c =
     (case map_of (zip ''ABCDEFGHIJKLMNOPQRSTUVWXYZ'' ''abcdefghijklmnopqrstuvwxyz'') c of
        Some d \<Rightarrow> d
      | None \<Rightarrow> c)"

definition str_lower :: "string \<Rightarrow> string" where
  "str_lower s = map lower_char s"

text \<open>
  \<^verbatim>\<open>_populate_relay_states_apis\<close>: for every member of \<^verbatim>\<open>RelayStates\<close> an instance
  attribute named \<^verbatim>\<open>member.name.lower()\<close> that holds the closure for
  \<^verbatim>\<open>member.value\<close>. The table lists attribute name and captured value.
\<close>

definition populate_relay_states_apis :: "(string \<times> int) list" where
  "populate_relay_states_apis =
     map (\<lambda>m. (str_lower (RelayStates_name m), RelayStates_value m)) RelayStates_members"

subsection \<open>setup and quit\<close>

text \<open>
  \<^verbatim>\<open>setup\<close>: the constructor of the port is called with the stored device and baud
  rate, no parity, 8 data bits and 1 stop bit. When it raises, the exception is printed
  and the result is \<^verbatim>\<open>False\<close>; the assignment to \<^verbatim>\<open>_filedesc\<close> has not happened.
\<close>

definition setup_cfg :: "relay \<Rightarrow> serial_cfg" where
  "setup_cfg st =
     \<lparr> port = p_device st, baudrate = p_bauds st, parity = PARITY_NONE,
       bytesize = 8, stopbits = 1 \<rparr>"

definition setup_relay :: "env \<Rightarrow> relay \<Rightarrow> bool \<times> relay" where
  "setup_relay en st =
     (case serial_open en (wire st) (setup_cfg st) of
        Some e \<Rightarrow> (False, st\<lparr>printed := printed st @ [e]\<rparr>)
      | None \<Rightarrow>
          (True, st\<lparr>p_filedesc := Some (setup_cfg st),
                    wire := wire st @ [EvOpen (setup_cfg st)]\<rparr>))"

text \<open>
  \<^verbatim>\<open>__clear_queue\<close>: while the queue is not empty, take the oldest entry without
  blocking and call \<^verbatim>\<open>task_done\<close>. With a single thread \<^verbatim>\<open>get(block=False)\<close> on a
  non-empty queue cannot raise, so the \<^verbatim>\<open>except\<close> branch is never entered;
  \<^verbatim>\<open>task_done\<close> raises \<^verbatim>\<open>ValueError\<close> when the counter is already zero. The result
  is the exception (if any) and the entries and counter left.
\<close>

fun clear_loop :: "pyval list \<Rightarrow> nat \<Rightarrow> pyerr option \<times> pyval list \<times> nat" where
  "clear_loop [] u = (None, [], u)"
| "clear_loop (x # xs) u = (if u = 0 then (Some ValueError, xs, u) else clear_loop xs (u - 1))"

definition clear_queue :: "pyqueue \<Rightarrow> pyerr option \<times> pyqueue" where
  "clear_queue q =
     (case clear_loop (items q) (unfinished q) of
        (e, xs, u) \<Rightarrow> (e, q\<lparr>items := xs, unfinished := u\<rparr>))"

definition quit :: "env \<Rightarrow> relay \<Rightarrow> pyval res" where
  "quit en st =
     (let st1 = st\<lparr>p_running := False\<rparr> in
      case p_input_queue st1 of
        None \<Rightarrow> Exc AttributeError st1
      | Some q \<Rightarrow>
          (case clear_queue q of
             (Some e, q') \<Rightarrow> Exc e (st1\<lparr>p_input_queue := Some q'\<rparr>)
           | (None, q') \<Rightarrow> fd_close en (st1\<lparr>p_input_queue := Some q'\<rparr>)))"

section \<open>Command dispatch\<close>

subsection \<open>The Python operators used on a command descriptor\<close>

text \<open>\<^verbatim>\<open>s in t\<close> on two strings: \<open>s\<close> occurs in \<open>t\<close> as a contiguous piece.\<close>

fun str_contains :: "string \<Rightarrow> string \<Rightarrow> bool" where
  "str_contains s [] = (s = [])"
| "str_contains s (c # cs) = (prefix s (c # cs) \<or> str_contains s cs)"

text \<open>
  \<^verbatim>\<open>s in x\<close> for a string \<open>s\<close>: a substring test on a string, an element test on a
  list, a key test on a dictionary; a \<^verbatim>\<open>TypeError\<close> on bytes and on everything that
  is not a container.
\<close>

fun py_contains :: "string \<Rightarrow> pyval \<Rightarrow> pyerr + bool" where
  "py_contains s (VStr t) = Inr (str_contains s t)"
| "py_contains s (VList xs) = Inr (VStr s \<in> set xs)"
| "py_contains s (VDict kvs) = Inr (s \<in> set (map fst kvs))"
| "py_contains s v = Inl TypeError"

text \<open>
  \<^verbatim>\<open>x[k]\<close> for a string key: the value bound in a dictionary (the first pair of the
  association list with that key) or \<^verbatim>\<open>KeyError\<close>; a \<^verbatim>\<open>TypeError\<close> on everything
  else.
\<close>

fun py_getitem :: "pyval \<Rightarrow> string \<Rightarrow> pyerr + pyval" where
  "py_getitem (VDict kvs) k = (case map_of kvs k of None \<Rightarrow> Inl KeyError | Some v \<Rightarrow> Inr v)"
| "py_getitem v k = Inl TypeError"

definition lower_byte :: "byte \<Rightarrow> byte" where
  "lower_byte b = (if 65 \<le> b \<and> b \<le> 90 then b + 32 else b)"

text \<open>\<^verbatim>\<open>x.lower()\<close>: strings and bytes have the method, nothing else has.\<close>

fun py_lower :: "pyval \<Rightarrow> pyerr + pyval" where
  "py_lower (VStr s) = Inr (VStr (str_lower s))"
| "py_lower (VBytes bs) = Inr (VBytes (map lower_byte bs))"
| "py_lower v = Inl AttributeError"

subsection \<open>Attribute lookup on the instance\<close>

text \<open>
  What \<^verbatim>\<open>getattr(self, name)\<close> can find among the names this file gives the
  instance: a data field, one of the generated closures, or a method of the class.
\<close>

datatype attr =
    Data
  | Closure int
  | M_init
  | M_input_queue
  | M_set_input_queue
  | M_output_queue
  | M_set_output_queue
  | M_setup
  | M_clear_queue
  | M_quit
  | M_version
  | M_status
  | M_populate_relay_states_apis
  | M_analyse
  | M_run

definition own_attrs :: "(string \<times> attr) list" where
  "own_attrs =
     [(''_device'', Data), (''_bauds'', Data), (''_running'', Data),
      (''_filedesc'', Data), (''_input_queue'', Data), (''_output_queue'', Data)]
     @ map (\<lambda>(n, v). (n, Closure v)) populate_relay_states_apis
     @ [(''__init__'', M_init),
        (''input_queue'', M_input_queue),
        (''set_input_queue'', M_set_input_queue),
        (''output_queue'', M_output_queue),
        (''set_output_queue'', M_set_output_queue),
        (''setup'', M_setup),
        (''_LibRelay02__clear_queue'', M_clear_queue),
        (''quit'', M_quit),
        (''version'', M_version),
        (''status'', M_status),
        (''_populate_relay_states_apis'', M_populate_relay_states_apis),
        (''_analyse'', M_analyse),
        (''run'', M_run)]"

datatype found = Own attr | Base "pyerr + pyval" | Missing

definition getattr_self :: "env \<Rightarrow> string \<Rightarrow> found" where
  "getattr_self en n =
     (case map_of own_attrs n of
        Some a \<Rightarrow> Own a
      | None \<Rightarrow> (case inherited en n of Some r \<Rightarrow> Base r | None \<Rightarrow> Missing))"

text \<open>
  \<^verbatim>\<open>__init__\<close> called again on the instance, without arguments: after the base
  class's constructor every field is set anew, the device and the baud rate to their
  defaults.
\<close>

definition init_again :: "relay \<Rightarrow> relay" where
  "init_again st =
     st\<lparr>p_device := ''/dev/ttyACM0'', p_bauds := 115200, p_running := True,
        p_filedesc := None, p_input_queue := None, p_output_queue := None\<rparr>"

text \<open>
  Calling what was found, with no argument. A data field is not callable and a method
  with a required parameter misses it: both are a \<^verbatim>\<open>TypeError\<close>. The name \<^verbatim>\<open>run\<close>
  finds the worker loop itself, which then runs inside the running one; \<open>rn\<close> is what
  \<^verbatim>\<open>self.run()\<close> does from a state, and the loop below is put in for it.
\<close>

fun call_attr_via :: "(relay \<Rightarrow> unit res) \<Rightarrow> env \<Rightarrow> relay \<Rightarrow> attr \<Rightarrow> pyval res" where
  "call_attr_via rn en st Data = Exc TypeError st"
| "call_attr_via rn en st (Closure v) = tmp_fct v en st"
| "call_attr_via rn en st M_init = Ret VNone (init_again st)"
| "call_attr_via rn en st M_input_queue =
     Ret (case p_input_queue st of None \<Rightarrow> VNone | Some q \<Rightarrow> VObj InputQueueObj) st"
| "call_attr_via rn en st M_set_input_queue = Exc TypeError st"
| "call_attr_via rn en st M_output_queue =
     Ret (case p_output_queue st of None \<Rightarrow> VNone | Some q \<Rightarrow> VObj OutputQueueObj) st"
| "call_attr_via rn en st M_set_output_queue = Exc TypeError st"
| "call_attr_via rn en st M_setup = (case setup_relay en st of (b, st') \<Rightarrow> Ret (VBool b) st')"
| "call_attr_via rn en st M_clear_queue = Exc TypeError st"
| "call_attr_via rn en st M_quit = quit en st"
| "call_attr_via rn en st M_version = version en st"
| "call_attr_via rn en st M_status = status en st"
| "call_attr_via rn en st M_populate_relay_states_apis = Ret VNone st"
| "call_attr_via rn en st M_analyse = Exc TypeError st"
| "call_attr_via rn en st M_run = then_do (rn st) (\<lambda>u st'. Ret VNone st')"

text \<open>\<^verbatim>\<open>getattr(self, n)()\<close>; the name has to be a string.\<close>

definition getattr_call_via :: "(relay \<Rightarrow> unit res) \<Rightarrow> env \<Rightarrow> relay \<Rightarrow> pyval \<Rightarrow> pyval res" where
  "getattr_call_via rn en st n =
     (case n of
        VStr a \<Rightarrow>
          (case getattr_self en a of
             Own m \<Rightarrow> call_attr_via rn en st m
           | Base r \<Rightarrow> (case r of Inl e \<Rightarrow> Exc e st | Inr v \<Rightarrow> Ret v st)
           | Missing \<Rightarrow> Exc AttributeError st)
      | _ \<Rightarrow> Exc TypeError st)"

subsection \<open>_analyse\<close>

text \<open>The body of the \<^verbatim>\<open>try\<close>: \<^verbatim>\<open>getattr(self, command["content"].lower())()\<close>.\<close>

definition try_body_via :: "(relay \<Rightarrow> unit res) \<Rightarrow> env \<Rightarrow> relay \<Rightarrow> pyval \<Rightarrow> pyval res" where
  "try_body_via rn en st command =
     (case py_getitem command ''content'' of
        Inl e \<Rightarrow> Exc e st
      | Inr c \<Rightarrow>
          (case py_lower c of
             Inl e \<Rightarrow> Exc e st
           | Inr n \<Rightarrow> getattr_call_via rn en st n))"

text \<open>
  \<^verbatim>\<open>_analyse\<close>. The two tests on \<^verbatim>\<open>"action"\<close> stand before the \<^verbatim>\<open>try\<close>, so what
  they raise leaves the method. An exception of the \<^verbatim>\<open>try\<close> body is printed and the
  method returns \<^verbatim>\<open>None\<close>.
\<close>

definition analyse_via :: "(relay \<Rightarrow> unit res) \<Rightarrow> env \<Rightarrow> relay \<Rightarrow> pyval \<Rightarrow> pyval res" where
  "analyse_via rn en st command =
     (case py_contains ''action'' command of
        Inl e \<Rightarrow> Exc e st
      | Inr has_action \<Rightarrow>
          if \<not> has_action then Ret VNone st
          else
            (case py_getitem command ''action'' of
               Inl e \<Rightarrow> Exc e st
             | Inr a \<Rightarrow>
                 (case py_contains (APIAction_name SET_STATE) a of
                    Inl e \<Rightarrow> Exc e st
                  | Inr has_set \<Rightarrow>
                      (case (if has_set then Inr True
                             else py_contains (APIAction_name QUERY) a) of
                         Inl e \<Rightarrow> Exc e st
                       | Inr accepted \<Rightarrow>
                           if \<not> accepted then Ret VNone st
                           else
                             (case try_body_via rn en st command of
                                Exc e st' \<Rightarrow> Ret VNone (st'\<lparr>printed := printed st' @ [e]\<rparr>)
                              | r \<Rightarrow> r)))))"

subsection \<open>The worker loop\<close>

text \<open>
  \<^verbatim>\<open>self._input_queue.get()\<close> takes the oldest entry and blocks while there is none;
  \<^verbatim>\<open>self._output_queue.put(res)\<close> appends. Either is an attribute of \<^verbatim>\<open>None\<close>
  when the queue was never attached.
\<close>

definition queue_get :: "relay \<Rightarrow> pyval res" where
  "queue_get st =
     (case p_input_queue st of
        None \<Rightarrow> Exc AttributeError st
      | Some q \<Rightarrow>
          (case items q of
             [] \<Rightarrow> Blocks st
           | c # cs \<Rightarrow> Ret c (st\<lparr>p_input_queue := Some (q\<lparr>items := cs\<rparr>)\<rparr>)))"

definition queue_put :: "relay \<Rightarrow> pyval \<Rightarrow> unit res" where
  "queue_put st v =
     (case p_output_queue st of
        None \<Rightarrow> Exc AttributeError st
      | Some q \<Rightarrow>
          Ret () (st\<lparr>p_output_queue :=
                      Some (q\<lparr>items := items q @ [v], unfinished := unfinished q + 1\<rparr>)\<rparr>))"

text \<open>The body of the \<^verbatim>\<open>while\<close> loop of \<^verbatim>\<open>run\<close>: get, analyse, put.\<close>

definition iteration_via :: "(relay \<Rightarrow> unit res) \<Rightarrow> env \<Rightarrow> relay \<Rightarrow> unit res" where
  "iteration_via rn en st =
     then_do (queue_get st) (\<lambda>command st1.
     then_do (analyse_via rn en st1 command) (\<lambda>r st2.
     queue_put st2 r))"

text \<open>
  The number of commands waiting. No operation a command can reach adds a command to
  the input queue, and \<^verbatim>\<open>self.run()\<close> is only ever called after a command was taken:
  this is why the loop, with the loops inside it, comes to an end.
\<close>

definition qlen :: "relay \<Rightarrow> nat" where
  "qlen st = (case p_input_queue st of None \<Rightarrow> 0 | Some q \<Rightarrow> length (items q))"

text \<open>
  What the operations on the port and \<^verbatim>\<open>quit\<close> leave alone: none replaces the output
  queue, none adds a command to the input queue, and only \<^verbatim>\<open>quit\<close>, which clears
  \<^verbatim>\<open>_running\<close> first, touches the input queue at all.
\<close>

definition keeps :: "relay \<Rightarrow> relay \<Rightarrow> bool" where
  "keeps s s' =
     (p_output_queue s' = p_output_queue s \<and> qlen s' \<le> qlen s \<and>
      (p_running s' \<longrightarrow> p_running s \<and> p_input_queue s' = p_input_queue s))"

lemma keeps_refl: "keeps s s"
  by (simp add: keeps_def)

lemma keeps_trans: "keeps s t \<Longrightarrow> keeps t u \<Longrightarrow> keeps s u"
  by (auto simp: keeps_def)

lemma keeps_then_do:
  assumes "keeps s (state_of m)" and "\<And>x t. keeps t (state_of (f x t))"
  shows "keeps s (state_of (then_do m f))"
  using assms by (cases m) (auto intro: keeps_trans)

lemma keeps_fd_write: "keeps st (state_of (fd_write en st bs))"
  by (simp add: fd_write_def keeps_def qlen_def split: option.splits sum.splits)

lemma keeps_fd_read: "keeps st (state_of (fd_read en st n))"
  by (simp add: fd_read_def keeps_def qlen_def split: option.splits sum.splits)

lemma keeps_fd_close: "keeps st (state_of (fd_close en st))"
  by (simp add: fd_close_def keeps_def qlen_def split: option.splits sum.splits)

lemma keeps_sleep: "keeps st (state_of (sleep_100ms st))"
  by (simp add: sleep_100ms_def keeps_def qlen_def)

lemma keeps_version: "keeps st (state_of (version en st))"
  unfolding version_def
  by (auto split: sum.splits intro!: keeps_then_do keeps_fd_write keeps_sleep keeps_fd_read
      simp: keeps_refl)

lemma keeps_status: "keeps st (state_of (status en st))"
  unfolding status_def
  by (auto split: sum.splits intro!: keeps_then_do keeps_fd_write keeps_sleep keeps_fd_read
      simp: keeps_refl)

lemma keeps_tmp_fct: "keeps st (state_of (tmp_fct v en st))"
  unfolding tmp_fct_def
  by (auto split: sum.splits intro!: keeps_then_do keeps_fd_write keeps_sleep
      simp: keeps_refl)

lemma keeps_setup_relay: "keeps st (snd (setup_relay en st))"
  by (simp add: setup_relay_def keeps_def qlen_def split: option.splits)

lemma clear_loop_length: "length (fst (snd (clear_loop xs u))) \<le> length xs"
  by (induction xs u rule: clear_loop.induct) auto

lemma clear_queue_length:
  "clear_queue q = (e, q') \<Longrightarrow> length (items q') \<le> length (items q)"
  using clear_loop_length [of "items q" "unfinished q"]
  by (auto simp: clear_queue_def split: prod.splits)

lemma keeps_quit: "keeps st (state_of (quit en st))"
proof (cases "p_input_queue st")
  case None
  then show ?thesis by (simp add: quit_def keeps_def qlen_def)
next
  case (Some q)
  obtain e q' where c: "clear_queue q = (e, q')" by (cases "clear_queue q")
  let ?s = "st\<lparr>p_running := False, p_input_queue := Some q'\<rparr>"
  have k: "keeps st ?s"
    using clear_queue_length [OF c] Some by (simp add: keeps_def qlen_def)
  show ?thesis
  proof (cases e)
    case None
    then have "quit en st = fd_close en ?s" using Some c by (simp add: quit_def)
    then show ?thesis using keeps_trans [OF k keeps_fd_close] by simp
  next
    case (Some x)
    then have "quit en st = Exc x ?s"
      using \<open>p_input_queue st = Some q\<close> c by (simp add: quit_def)
    then show ?thesis using k by simp
  qed
qed

lemma keeps_qlen: "keeps s s' \<Longrightarrow> qlen s' \<le> qlen s"
  by (simp add: keeps_def)

lemma qlen_init_again: "qlen (init_again st) \<le> qlen st"
  by (simp add: init_again_def qlen_def)

lemma qlen_call_attr_via:
  assumes "qlen (state_of (rn st)) \<le> qlen st"
  shows "qlen (state_of (call_attr_via rn en st a)) \<le> qlen st"
proof (cases a)
  case M_setup
  then show ?thesis
    using keeps_setup_relay [of st en] by (cases "setup_relay en st") (simp add: keeps_def)
next
  case M_run
  then show ?thesis using assms by (cases "rn st") simp_all
qed (simp_all add: keeps_qlen keeps_tmp_fct keeps_quit keeps_version keeps_status qlen_init_again)

lemma qlen_analyse_via:
  assumes "qlen (state_of (rn st)) \<le> qlen st"
  shows "qlen (state_of (analyse_via rn en st c)) \<le> qlen st"
proof -
  have g: "qlen (state_of (getattr_call_via rn en st n)) \<le> qlen st" for n
    using qlen_call_attr_via [of rn st en, OF assms]
    by (simp add: getattr_call_via_def split: pyval.splits found.splits sum.splits)
  have t: "qlen (state_of (try_body_via rn en st c)) \<le> qlen st"
    by (simp add: try_body_via_def g split: sum.splits)
  have p: "qlen (s\<lparr>printed := x\<rparr>) = qlen s" for s x
    by (simp add: qlen_def)
  have "qlen (state_of (case try_body_via rn en st c of
            Exc e st' \<Rightarrow> Ret VNone (st'\<lparr>printed := printed st' @ [e]\<rparr>) | r \<Rightarrow> r)) \<le> qlen st"
    using t by (cases "try_body_via rn en st c") (simp_all add: p)
  then show ?thesis
    by (simp add: analyse_via_def split: sum.splits)
qed

lemma queue_get_qlen: "queue_get st = Ret c st1 \<Longrightarrow> qlen st1 < qlen st"
  by (auto simp: queue_get_def qlen_def split: option.splits list.splits)

lemma queue_put_qlen: "qlen (state_of (queue_put st2 r)) = qlen st2"
  by (auto simp: queue_put_def qlen_def split: option.splits)

lemma qlen_iteration_via:
  assumes "\<And>s. qlen s < qlen st \<Longrightarrow> qlen (state_of (rn s)) \<le> qlen s"
  shows "qlen (state_of (iteration_via rn en st)) \<le> qlen st"
    and "iteration_via rn en st = Ret u st' \<Longrightarrow> qlen st' < qlen st"
proof -
  have "qlen (state_of (iteration_via rn en st)) \<le> qlen st \<and>
        (iteration_via rn en st = Ret u st' \<longrightarrow> qlen st' < qlen st)"
  proof (cases "queue_get st")
    case (Ret c st1)
    then have l: "qlen st1 < qlen st" by (rule queue_get_qlen)
    then have a: "qlen (state_of (analyse_via rn en st1 c)) \<le> qlen st1"
      by (intro qlen_analyse_via assms)
    show ?thesis
    proof (cases "analyse_via rn en st1 c")
      case r: (Ret r st2)
      with a have "qlen st2 \<le> qlen st1" by simp
      with l have "qlen (state_of (queue_put st2 r)) < qlen st"
        by (simp add: queue_put_qlen)
      then show ?thesis
        using Ret r by (auto simp: iteration_via_def)
    qed (use Ret a l in \<open>simp_all add: iteration_via_def\<close>)
  next
    case (Exc e s)
    then show ?thesis
      by (auto simp: iteration_via_def queue_get_def split: option.splits list.splits)
  next
    case (Blocks s)
    then show ?thesis
      by (auto simp: iteration_via_def queue_get_def split: option.splits list.splits)
  qed
  then show "qlen (state_of (iteration_via rn en st)) \<le> qlen st"
    and "iteration_via rn en st = Ret u st' \<Longrightarrow> qlen st' < qlen st"
    by simp_all
qed

text \<open>
  The body of the loop calls \<open>rn\<close> on one state only, the one left by \<^verbatim>\<open>get\<close>, in
  which one command less is waiting.
\<close>

lemma call_attr_via_cong: "rn st = rn' st \<Longrightarrow> call_attr_via rn en st a = call_attr_via rn' en st a"
  by (cases a) simp_all

lemma analyse_via_cong: "rn st = rn' st \<Longrightarrow> analyse_via rn en st c = analyse_via rn' en st c"
  by (simp add: analyse_via_def try_body_via_def getattr_call_via_def call_attr_via_cong [of rn st rn']
      split: sum.splits pyval.splits found.splits cong: res.case_cong)

lemma iteration_via_cong [fundef_cong]:
  assumes "en = en'" and "st = st'" and "\<And>s. qlen s < qlen st' \<Longrightarrow> rn s = rn' s"
  shows "iteration_via rn en st = iteration_via rn' en' st'"
proof (cases "queue_get st'")
  case (Ret c st1)
  then have "rn st1 = rn' st1" using assms(3) queue_get_qlen by blast
  then show ?thesis
    using assms(1,2) Ret by (simp add: iteration_via_def analyse_via_cong [of rn st1 rn'])
qed (use assms in \<open>simp_all add: iteration_via_def\<close>)

text \<open>
  \<^verbatim>\<open>run\<close>: the loop goes on while \<^verbatim>\<open>_running\<close> holds. It ends by returning when the
  flag is found cleared, by an exception that nothing catches, or blocked in
  \<^verbatim>\<open>get\<close> once the commands present have all been taken. A command whose content is
  \<^verbatim>\<open>run\<close> starts the same loop inside the iteration that serves it.
\<close>

function run :: "env \<Rightarrow> relay \<Rightarrow> unit res" where
  "run en st =
     (if p_running st then
        (case iteration_via (run en) en st of
           Ret u st' \<Rightarrow> run en st'
         | Exc e st' \<Rightarrow> Exc e st'
         | Blocks st' \<Rightarrow> Blocks st')
      else Ret () st)"
  by pat_completeness auto

lemma run_dom_qlen: "run_dom (en, st) \<Longrightarrow> qlen (state_of (run en st)) \<le> qlen st"
proof (induction en st rule: run.pinduct)
  case (1 en st)
  show ?case
  proof (cases "p_running st")
    case False
    then show ?thesis by (simp add: run.psimps [OF "1.hyps"])
  next
    case True
    have inner: "\<And>s. qlen s < qlen st \<Longrightarrow> qlen (state_of (run en s)) \<le> qlen s"
      using "1.IH"(1) [OF True] .
    show ?thesis
    proof (cases "iteration_via (run en) en st")
      case (Ret u st')
      have "qlen st' < qlen st"
        using qlen_iteration_via(2) [of st "run en", OF inner Ret] .
      moreover have "qlen (state_of (run en st')) \<le> qlen st'"
        using "1.IH"(2) [OF True Ret] .
      ultimately show ?thesis
        using True Ret by (simp add: run.psimps [OF "1.hyps"])
    next
      case (Exc e s)
      then show ?thesis
        using qlen_iteration_via(1) [of st "run en" en, OF inner] True
        by (simp add: run.psimps [OF "1.hyps"])
    next
      case (Blocks s)
      then show ?thesis
        using qlen_iteration_via(1) [of st "run en" en, OF inner] True
        by (simp add: run.psimps [OF "1.hyps"])
    qed
  qed
qed

termination run
proof (relation "measure (\<lambda>(en, st). qlen st)")
  show "wf (measure (\<lambda>(en, st). qlen st))" by simp
next
  fix en :: env and st s :: relay
  assume "qlen s < qlen st"
  then show "((en, s), (en, st)) \<in> measure (\<lambda>(en, st). qlen st)" by simp
next
  fix en st u st'
  assume i: "iteration_via (run en) en st = Ret u st'"
    and d: "\<And>s. qlen s < qlen st \<Longrightarrow> run_dom (en, s)"
  have "qlen st' < qlen st"
    using qlen_iteration_via(2) [of st "run en", OF _ i] d run_dom_qlen by blast
  then show "((en, st'), (en, st)) \<in> measure (\<lambda>(en, st). qlen st)" by simp
qed

declare run.simps [simp del]

text \<open>
  The methods as they are called on the instance: \<^verbatim>\<open>self.run\<close> is the loop above.
\<close>

definition call_attr :: "env \<Rightarrow> relay \<Rightarrow> attr \<Rightarrow> pyval res" where
  "call_attr en st a = call_attr_via (run en) en st a"

definition getattr_call :: "env \<Rightarrow> relay \<Rightarrow> pyval \<Rightarrow> pyval res" where
  "getattr_call en st n = getattr_call_via (run en) en st n"

definition try_body :: "env \<Rightarrow> relay \<Rightarrow> pyval \<Rightarrow> pyval res" where
  "try_body en st command = try_body_via (run en) en st command"

definition analyse :: "env \<Rightarrow> relay \<Rightarrow> pyval \<Rightarrow> pyval res" where
  "analyse en st command = analyse_via (run en) en st command"

definition iteration :: "env \<Rightarrow> relay \<Rightarrow> unit res" where
  "iteration en st = iteration_via (run en) en st"

text \<open>The same methods, each in terms of the ones it calls.\<close>

lemma call_attr_simps [simp]:
  "call_attr en st Data = Exc TypeError st"
  "call_attr en st (Closure v) = tmp_fct v en st"
  "call_attr en st M_init = Ret VNone (init_again st)"
  "call_attr en st M_input_queue =
     Ret (case p_input_queue st of None \<Rightarrow> VNone | Some q \<Rightarrow> VObj InputQueueObj) st"
  "call_attr en st M_set_input_queue = Exc TypeError st"
  "call_attr en st M_output_queue =
     Ret (case p_output_queue st of None \<Rightarrow> VNone | Some q \<Rightarrow> VObj OutputQueueObj) st"
  "call_attr en st M_set_output_queue = Exc TypeError st"
  "call_attr en st M_setup = (case setup_relay en st of (b, st') \<Rightarrow> Ret (VBool b) st')"
  "call_attr en st M_clear_queue = Exc TypeError st"
  "call_attr en st M_quit = quit en st"
  "call_attr en st M_version = version en st"
  "call_attr en st M_status = status en st"
  "call_attr en st M_populate_relay_states_apis = Ret VNone st"
  "call_attr en st M_analyse = Exc TypeError st"
  "call_attr en st M_run = then_do (run en st) (\<lambda>u st'. Ret VNone st')"
  by (simp_all add: call_attr_def)

lemma getattr_call_eq:
  "getattr_call en st n =
     (case n of
        VStr a \<Rightarrow>
          (case getattr_self en a of
             Own m \<Rightarrow> call_attr en st m
           | Base r \<Rightarrow> (case r of Inl e \<Rightarrow> Exc e st | Inr v \<Rightarrow> Ret v st)
           | Missing \<Rightarrow> Exc AttributeError st)
      | _ \<Rightarrow> Exc TypeError st)"
  unfolding getattr_call_def getattr_call_via_def call_attr_def by (rule refl)

lemma try_body_eq:
  "try_body en st command =
     (case py_getitem command ''content'' of
        Inl e \<Rightarrow> Exc e st
      | Inr c \<Rightarrow>
          (case py_lower c of
             Inl e \<Rightarrow> Exc e st
           | Inr n \<Rightarrow> getattr_call en st n))"
  unfolding try_body_def try_body_via_def getattr_call_def by (rule refl)

lemma analyse_eq:
  "analyse en st command =
     (case py_contains ''action'' command of
        Inl e \<Rightarrow> Exc e st
      | Inr has_action \<Rightarrow>
          if \<not> has_action then Ret VNone st
          else
            (case py_getitem command ''action'' of
               Inl e \<Rightarrow> Exc e st
             | Inr a \<Rightarrow>
                 (case py_contains (APIAction_name SET_STATE) a of
                    Inl e \<Rightarrow> Exc e st
                  | Inr has_set \<Rightarrow>
                      (case (if has_set then Inr True
                             else py_contains (APIAction_name QUERY) a) of
                         Inl e \<Rightarrow> Exc e st
                       | Inr accepted \<Rightarrow>
                           if \<not> accepted then Ret VNone st
                           else
                             (case try_body en st command of
                                Exc e st' \<Rightarrow> Ret VNone (st'\<lparr>printed := printed st' @ [e]\<rparr>)
                              | r \<Rightarrow> r)))))"
  unfolding analyse_def analyse_via_def try_body_def by (rule refl)

lemma iteration_eq:
  "iteration en st =
     then_do (queue_get st) (\<lambda>command st1.
     then_do (analyse en st1 command) (\<lambda>r st2.
     queue_put st2 r))"
  unfolding iteration_def iteration_via_def analyse_def by (rule refl)

lemma run_eq:
  "run en st =
     (if p_running st then
        (case iteration en st of
           Ret u st' \<Rightarrow> run en st'
         | Exc e st' \<Rightarrow> Exc e st'
         | Blocks st' \<Rightarrow> Blocks st')
      else Ret () st)"
  by (subst run.simps) (simp add: iteration_def)



section \<open>The wire encoding\<close>

text \<open>
  The byte string that goes out for a protocol symbol: \<^verbatim>\<open>struct.pack('!B', .value)\<close>
  of a member of \<^verbatim>\<open>RelayStates\<close> (in \<^verbatim>\<open>tmp_fct\<close>) or of \<^verbatim>\<open>RelayQueries\<close> (in
  \<^verbatim>\<open>version\<close> and \<^verbatim>\<open>status\<close>).
\<close>

definition encode :: "RelayStates + RelayQueries \<Rightarrow> pyerr + byte list" where
  "encode s =
     pack_B (case s of Inl m \<Rightarrow> RelayStates_value m | Inr q \<Rightarrow> RelayQueries_value q)"

section \<open>A mock transport and a dispatcher ready to run\<close>

text \<open>
  A transport that opens and closes without fault, whose \<^verbatim>\<open>write\<close> returns the number of
  bytes written and whose \<^verbatim>\<open>read(size=n)\<close> returns the first \<open>n\<close> of the bytes 01 02;
  a few of the names \<^verbatim>\<open>threading.Thread\<close> provides, with what calling them from
  the worker's own thread does; and a dispatcher after
  \<^verbatim>\<open>setup\<close> with both queues attached and the commands \<open>cs\<close> waiting.
\<close>

definition mock_env :: env where
  "mock_env =
     \<lparr> serial_open = (\<lambda>w c. None),
       serial_write = (\<lambda>w bs. Inr (VInt (int (length bs)))),
       serial_read = (\<lambda>w n. Inr (VBytes (take n [1, 2]))),
       serial_close = (\<lambda>w. None),
       inherited =
         map_of [(''start'', Inl RuntimeError), (''join'', Inl RuntimeError),
                 (''is_alive'', Inr (VBool True)), (''name'', Inl TypeError),
                 (''daemon'', Inl TypeError), (''ident'', Inl TypeError)] \<rparr>"

definition mock_cfg :: serial_cfg where
  "mock_cfg = \<lparr> port = ''/dev/ttyACM0'', baudrate = 115200, parity = PARITY_NONE, bytesize = 8, stopbits = 1 \<rparr>"

definition ready :: "pyval list \<Rightarrow> relay" where
  "ready cs =
     \<lparr> p_device = ''/dev/ttyACM0'', p_bauds = 115200, p_running = True,
       p_filedesc = Some mock_cfg,
       p_input_queue = Some \<lparr> items = cs, unfinished = length cs \<rparr>,
       p_output_queue = Some \<lparr> items = [], unfinished = 0 \<rparr>,
       wire = [EvOpen mock_cfg], printed = [] \<rparr>"

text \<open>The same transport, except that the port cannot be opened.\<close>

definition dead_env :: env where
  "dead_env = mock_env\<lparr>serial_open := (\<lambda>w c. Some SerialException)\<rparr>"

section \<open>Facts about single operations\<close>

lemma str_lower_names:
  "str_lower ''VERSION'' = ''version''" "str_lower ''STATUS'' = ''status''"
  "str_lower ''ALL_ON'' = ''all_on''" "str_lower ''ALL_OFF'' = ''all_off''"
  "str_lower ''ONE_ON'' = ''one_on''" "str_lower ''ONE_OFF'' = ''one_off''"
  "str_lower ''TWO_ON'' = ''two_on''" "str_lower ''TWO_OFF'' = ''two_off''"
  by (simp_all add: str_lower_def lower_char_def)

lemma populate_table:
  "populate_relay_states_apis =
     [(''all_on'', 100), (''all_off'', 110), (''one_on'', 101), (''one_off'', 111),
      (''two_on'', 102), (''two_off'', 112)]"
  by (simp add: populate_relay_states_apis_def RelayStates_members_def str_lower_names)

lemma getattr_self_protocol:
  "getattr_self en ''version'' = Own M_version"
  "getattr_self en ''status'' = Own M_status"
  "getattr_self en ''all_on'' = Own (Closure 100)"
  "getattr_self en ''all_off'' = Own (Closure 110)"
  "getattr_self en ''one_on'' = Own (Closure 101)"
  "getattr_self en ''one_off'' = Own (Closure 111)"
  "getattr_self en ''two_on'' = Own (Closure 102)"
  "getattr_self en ''two_off'' = Own (Closure 112)"
  by (simp_all add: getattr_self_def own_attrs_def populate_table)

lemma version_eq:
  assumes "p_filedesc st = Some h" and "serial_write en (wire st) [90] = Inr w"
  shows "version en st =
     (case serial_read en (wire st @ [EvWrite [90], EvSleep 100]) 2 of
        Inl e \<Rightarrow> Exc e (st\<lparr>wire := wire st @ [EvWrite [90], EvSleep 100, EvRead 2]\<rparr>)
      | Inr v \<Rightarrow> Ret v (st\<lparr>wire := wire st @ [EvWrite [90], EvSleep 100, EvRead 2]\<rparr>))"
  using assms
  by (simp add: version_def pack_B_def fd_write_def sleep_100ms_def fd_read_def split: sum.splits)

lemma status_eq:
  assumes "p_filedesc st = Some h" and "serial_write en (wire st) [91] = Inr w"
  shows "status en st =
     (case serial_read en (wire st @ [EvWrite [91], EvSleep 100]) 1 of
        Inl e \<Rightarrow> Exc e (st\<lparr>wire := wire st @ [EvWrite [91], EvSleep 100, EvRead 1]\<rparr>)
      | Inr v \<Rightarrow> Ret v (st\<lparr>wire := wire st @ [EvWrite [91], EvSleep 100, EvRead 1]\<rparr>))"
  using assms
  by (simp add: status_def pack_B_def fd_write_def sleep_100ms_def fd_read_def split: sum.splits)

lemma tmp_fct_eq:
  assumes "p_filedesc st = Some h" and "pack_B v  = Inr bs" and "serial_write en (wire st) bs = Inr w"
  shows "tmp_fct v en st = Ret w (st\<lparr>wire := wire st @ [EvWrite bs, EvSleep 100]\<rparr>)"
  using assms
  by (simp add: tmp_fct_def fd_write_def sleep_100ms_def)

text \<open>
  The test \<^verbatim>\<open>_analyse\<close> makes on \<^verbatim>\<open>command["action"]\<close>, when it lets the command
  through: \<^verbatim>\<open>SET_STATE\<close> is in it, or it is not and \<^verbatim>\<open>QUERY\<close> is.
\<close>

definition accepted :: "pyval \<Rightarrow> bool" where
  "accepted a =
     (py_contains (APIAction_name SET_STATE) a = Inr True \<or>
      py_contains (APIAction_name SET_STATE) a = Inr False \<and>
      py_contains (APIAction_name QUERY) a = Inr True)"

lemma analyse_accepted:
  assumes "map_of kvs ''action'' = Some a" and "accepted a"
  shows "analyse en st (VDict kvs) =
     (case try_body en st (VDict kvs) of
        Exc e st' \<Rightarrow> Ret VNone (st'\<lparr>printed := printed st' @ [e]\<rparr>)
      | r \<Rightarrow> r)"
proof -
  have "''action'' \<in> set (map fst kvs)"
    using assms(1) by (metis map_of_eq_None_iff option.distinct(1) set_map)
  then show ?thesis
    using assms by (auto simp: analyse_eq accepted_def)
qed

lemma try_body_str:
  assumes "map_of kvs ''content'' = Some (VStr c)"
  shows "try_body en st (VDict kvs) = getattr_call en st (VStr (str_lower c))"
  using assms by (simp add: try_body_eq)

text \<open>The command descriptor \<^verbatim>\<open>{"action": a, "content": c}\<close>.\<close>

definition ask :: "string \<Rightarrow> string \<Rightarrow> pyval" where
  "ask a c = VDict [(''action'', VStr a), (''content'', VStr c)]"

lemma str_contains_sublist: "str_contains s t \<longleftrightarrow> sublist s t"
  by (induction t) (simp_all add: sublist_Cons_right)

lemma getattr_call_closure:
  assumes "getattr_self en n = Own (Closure v)"
  shows "getattr_call en st (VStr n) = tmp_fct v en st"
  using assms by (simp add: getattr_call_eq)

lemma clear_loop_None: "clear_loop xs u = (None, ys, u') \<Longrightarrow> ys = []"
  by (induction xs u rule: clear_loop.induct) (auto split: if_splits)

lemma clear_loop_enough: "length xs \<le> u \<Longrightarrow> clear_loop xs u = (None, [], u - length xs)"
  by (induction xs u rule: clear_loop.induct) auto

lemma quit_Ret:
  assumes "quit en st = Ret v st'"
  shows "\<exists>q h. p_input_queue st = Some q \<and> p_filedesc st = Some h \<and>
           fst (clear_loop (items q) (unfinished q)) = None \<and>
           serial_close en (wire st) = None \<and> v = VNone \<and>
           st' = st\<lparr>p_running := False,
                    p_input_queue :=
                      Some (q\<lparr>items := [], unfinished := snd (snd (clear_loop (items q) (unfinished q)))\<rparr>),
                    wire := wire st @ [EvClose]\<rparr>"
proof -
  from assms obtain q where q: "p_input_queue st = Some q"
    by (cases "p_input_queue st") (simp_all add: quit_def)
  obtain e ys u where c: "clear_loop (items q) (unfinished q) = (e, ys, u)"
    by (cases "clear_loop (items q) (unfinished q)")
  from assms q c have e: "e = None"
    by (cases e) (simp_all add: quit_def clear_queue_def)
  with c have ys: "ys = []" by (simp add: clear_loop_None)
  from assms q c e ys have f: "fd_close en (st\<lparr>p_running := False,
        p_input_queue := Some (q\<lparr>items := [], unfinished := u\<rparr>)\<rparr>) = Ret v st'"
    by (simp add: quit_def clear_queue_def)
  then obtain h where h: "p_filedesc st = Some h"
    by (cases "p_filedesc st") (simp_all add: fd_close_def)
  from f h have cl: "serial_close en (wire st) = None"
    by (cases "serial_close en (wire st)") (simp_all add: fd_close_def)
  from f h cl q c e ys show ?thesis
    by (auto simp: fd_close_def)
qed

text \<open>
  The two early returns of \<^verbatim>\<open>_analyse\<close>: no \<^verbatim>\<open>"action"\<close> in the command, or an
  action in which neither \<^verbatim>\<open>SET_STATE\<close> nor \<^verbatim>\<open>QUERY\<close> is found.
\<close>

definition rejected :: "pyval \<Rightarrow> bool" where
  "rejected c =
     (case py_contains ''action'' c of
        Inl e \<Rightarrow> False
      | Inr has_action \<Rightarrow>
          if \<not> has_action then True
          else
            (case py_getitem c ''action'' of
               Inl e \<Rightarrow> False
             | Inr a \<Rightarrow>
                 py_contains (APIAction_name SET_STATE) a = Inr False \<and>
                 py_contains (APIAction_name QUERY) a = Inr False))"

lemma analyse_rejected: "rejected c \<Longrightarrow> analyse en st c = Ret VNone st"
  by (auto simp: rejected_def analyse_eq split: sum.splits if_splits)

lemma run_step: "p_running st \<Longrightarrow> iteration en st = Ret u st' \<Longrightarrow> run en st = run en st'"
  by (subst run_eq) simp

lemma run_stop:
  "p_running st \<Longrightarrow> iteration en st = Exc e st' \<Longrightarrow> run en st = Exc e st'"
  "p_running st \<Longrightarrow> iteration en st = Blocks st' \<Longrightarrow> run en st = Blocks st'"
  "\<not> p_running st \<Longrightarrow> run en st = Ret () st"
  by (subst run_eq, simp)+

lemmas eval_defs =
  iteration_eq queue_get_def queue_put_def analyse_eq try_body_eq getattr_call_eq
  call_attr_simps getattr_self_def own_attrs_def populate_table str_lower_def lower_char_def
  tmp_fct_def version_def status_def pack_B_def fd_write_def fd_read_def fd_close_def
  sleep_100ms_def quit_def clear_queue_def setup_relay_def setup_cfg_def
  ready_def mock_env_def mock_cfg_def ask_def

text \<open>A command without \<^verbatim>\<open>"action"\<close>.\<close>

definition no_action :: pyval where
  "no_action = VDict [(''content'', VStr ''ALL_ON'')]"

text \<open>
  A call that settles ends by returning or by raising: it does not block.
\<close>

definition settles :: "'a res \<Rightarrow> bool" where
  "settles r = (case r of Ret x s \<Rightarrow> True | Exc e s \<Rightarrow> True | Blocks s \<Rightarrow> False)"

lemma settles_simps [simp]:
  "settles (Ret x s)" "settles (Exc e s)" "\<not> settles (Blocks s)"
  by (simp_all add: settles_def)
































section \<open>Properties of the dispatcher\<close>

subsection \<open>Commands turned away\<close>

text \<open>
  C1, as the code has it. For a command that \<^verbatim>\<open>_analyse\<close> turns away (it has no
  \<^verbatim>\<open>"action"\<close>, or neither \<^verbatim>\<open>SET_STATE\<close> nor \<^verbatim>\<open>QUERY\<close> occurs in its action),
  nothing is written to the port and nothing is printed, the worker puts \<^verbatim>\<open>None\<close> on
  the output queue for it, and it then goes on exactly as it would from the state where
  the command is gone and that \<^verbatim>\<open>None\<close> is queued: the commands behind it are
  processed as usual.
\<close>

theorem C1_rejected_command_yields_None:
  assumes "rejected c" and "p_running st"
    and "p_input_queue st = Some qi" and "items qi = c # cs"
    and "p_output_queue st = Some qo"
  shows "analyse en (st\<lparr>p_input_queue := Some (qi\<lparr>items := cs\<rparr>)\<rparr>) c =
           Ret VNone (st\<lparr>p_input_queue := Some (qi\<lparr>items := cs\<rparr>)\<rparr>) \<and>
         iteration en st =
           Ret () (st\<lparr>p_input_queue := Some (qi\<lparr>items := cs\<rparr>),
                      p_output_queue :=
                        Some (qo\<lparr>items := items qo @ [VNone],
                                 unfinished := unfinished qo + 1\<rparr>)\<rparr>) \<and>
         run en st =
           run en (st\<lparr>p_input_queue := Some (qi\<lparr>items := cs\<rparr>),
                      p_output_queue :=
                        Some (qo\<lparr>items := items qo @ [VNone],
                                 unfinished := unfinished qo + 1\<rparr>)\<rparr>)"
proof -
  let ?s1 = "st\<lparr>p_input_queue := Some (qi\<lparr>items := cs\<rparr>)\<rparr>"
  have a: "analyse en ?s1 c = Ret VNone ?s1"
    using assms(1) by (rule analyse_rejected)
  have g: "queue_get st = Ret c ?s1"
    using assms by (simp add: queue_get_def)
  have i: "iteration en st =
           Ret () (st\<lparr>p_input_queue := Some (qi\<lparr>items := cs\<rparr>),
                      p_output_queue :=
                        Some (qo\<lparr>items := items qo @ [VNone],
                                 unfinished := unfinished qo + 1\<rparr>)\<rparr>)"
    using assms by (simp add: iteration_eq g a queue_put_def)
  from a i run_step [OF assms(2) i] show ?thesis by simp
qed

theorem C1_rejected_command_yields_None_witness:
  "iteration mock_env (ready [no_action, ask ''SET_STATE'' ''ALL_ON'']) =
     Ret () ((ready [no_action, ask ''SET_STATE'' ''ALL_ON''])
       \<lparr>p_input_queue := Some \<lparr>items = [ask ''SET_STATE'' ''ALL_ON''], unfinished = 2\<rparr>,
        p_output_queue := Some \<lparr>items = [VNone], unfinished = 1\<rparr>\<rparr>) \<and>
   run mock_env (ready [no_action, ask ''SET_STATE'' ''ALL_ON'']) =
     Blocks ((ready [no_action, ask ''SET_STATE'' ''ALL_ON''])
       \<lparr>p_input_queue := Some \<lparr>items = [], unfinished = 2\<rparr>,
        p_output_queue := Some \<lparr>items = [VNone, VInt 1], unfinished = 2\<rparr>,
        wire := [EvOpen mock_cfg, EvWrite [100], EvSleep 100]\<rparr>)"
proof -
  let ?st = "ready [no_action, ask ''SET_STATE'' ''ALL_ON'']"
  let ?s2 = "?st\<lparr>p_input_queue := Some \<lparr>items = [ask ''SET_STATE'' ''ALL_ON''], unfinished = 2\<rparr>,
        p_output_queue := Some \<lparr>items = [VNone], unfinished = 1\<rparr>\<rparr>"
  let ?s3 = "?st\<lparr>p_input_queue := Some \<lparr>items = [], unfinished = 2\<rparr>,
        p_output_queue := Some \<lparr>items = [VNone, VInt 1], unfinished = 2\<rparr>,
        wire := [EvOpen mock_cfg, EvWrite [100], EvSleep 100]\<rparr>"
  have r: "rejected no_action"
    by (simp add: rejected_def no_action_def)
  have i2: "iteration mock_env ?s2 = Ret () ?s3"
    by (simp add: eval_defs)
  have i3: "iteration mock_env ?s3 = Blocks ?s3"
    by (simp add: eval_defs)
  have "run mock_env ?s2 = Blocks ?s3"
    using run_step [OF _ i2] run_stop(2) [OF _ i3] by (simp add: ready_def)
  then show ?thesis
    using C1_rejected_command_yields_None [OF r, of ?st
        "\<lparr>items = [no_action, ask ''SET_STATE'' ''ALL_ON''], unfinished = 2\<rparr>"
        "[ask ''SET_STATE'' ''ALL_ON'']" "\<lparr>items = [], unfinished = 0\<rparr>" mock_env]
    by (simp add: ready_def)
qed

text \<open>
  The claim as stated fails: for a command without \<^verbatim>\<open>"action"\<close> the output queue,
  empty before, holds \<^verbatim>\<open>None\<close> after the iteration; and the action
  \<^verbatim>\<open>MY_QUERY_X\<close>, which is neither of the two names, is let through, so that the byte
  100 is written and the result of the write is queued.
\<close>

theorem C1_counterexample:
  "p_output_queue (ready [no_action]) = Some \<lparr>items = [], unfinished = 0\<rparr> \<and>
   p_output_queue (state_of (iteration mock_env (ready [no_action]))) =
     Some \<lparr>items = [VNone], unfinished = 1\<rparr> \<and>
   ''MY_QUERY_X'' \<noteq> APIAction_name SET_STATE \<and> ''MY_QUERY_X'' \<noteq> APIAction_name QUERY \<and>
   iteration mock_env (ready [ask ''MY_QUERY_X'' ''ALL_ON'']) =
     Ret () ((ready [ask ''MY_QUERY_X'' ''ALL_ON''])
       \<lparr>p_input_queue := Some \<lparr>items = [], unfinished = 1\<rparr>,
        p_output_queue := Some \<lparr>items = [VInt 1], unfinished = 1\<rparr>,
        wire := [EvOpen mock_cfg, EvWrite [100], EvSleep 100]\<rparr>)"
  by (simp add: eval_defs no_action_def)

subsection \<open>A command that ends the worker\<close>

text \<open>
  C2 does not hold of the code. A dictionary whose \<^verbatim>\<open>"action"\<close> is the number 1 (the
  \<^verbatim>\<open>.value\<close> of \<^verbatim>\<open>SET_STATE\<close> in place of its \<^verbatim>\<open>.name\<close>) makes the test on the
  action, which stands before the \<^verbatim>\<open>try\<close>, raise \<^verbatim>\<open>TypeError\<close>: \<^verbatim>\<open>run\<close> ends
  with that exception, nothing is put on the output queue and the next command stays in
  the input queue. The other malformed commands (an unknown action, no action, no
  content, a content that is no string, a content that names nothing) each yield
  \<^verbatim>\<open>None\<close>, and the worker goes on to answer the command behind them.
\<close>

theorem C2_int_action_ends_worker:
  "run mock_env
     (ready [VDict [(''action'', VInt (APIAction_value SET_STATE)), (''content'', VStr ''ALL_ON'')],
             ask ''QUERY'' ''VERSION'']) =
     Exc TypeError
       ((ready [VDict [(''action'', VInt (APIAction_value SET_STATE)), (''content'', VStr ''ALL_ON'')],
                ask ''QUERY'' ''VERSION''])
          \<lparr>p_input_queue := Some \<lparr>items = [ask ''QUERY'' ''VERSION''], unfinished = 2\<rparr>\<rparr>) \<and>
   run mock_env
     (ready [VDict [(''action'', VStr ''1''), (''content'', VStr ''ALL_ON'')],
             VDict [(''content'', VStr ''ALL_ON'')],
             VDict [(''action'', VStr ''QUERY'')],
             VDict [(''action'', VStr ''QUERY''), (''content'', VInt 1)],
             VDict [(''action'', VStr ''QUERY''), (''content'', VStr ''bogus'')],
             ask ''QUERY'' ''VERSION'']) =
     Blocks
       ((ready [VDict [(''action'', VStr ''1''), (''content'', VStr ''ALL_ON'')],
                VDict [(''content'', VStr ''ALL_ON'')],
                VDict [(''action'', VStr ''QUERY'')],
                VDict [(''action'', VStr ''QUERY''), (''content'', VInt 1)],
                VDict [(''action'', VStr ''QUERY''), (''content'', VStr ''bogus'')],
                ask ''QUERY'' ''VERSION''])
          \<lparr>p_input_queue := Some \<lparr>items = [], unfinished = 6\<rparr>,
           p_output_queue :=
             Some \<lparr>items = [VNone, VNone, VNone, VNone, VNone, VBytes [1, 2]], unfinished = 6\<rparr>,
           wire := [EvOpen mock_cfg, EvWrite [90], EvSleep 100, EvRead 2],
           printed := [KeyError, AttributeError, AttributeError]\<rparr>)"
  by (simp add: run_eq eval_defs)

subsection \<open>Wire bytes\<close>

text \<open>
  C3. Every protocol symbol is encoded as its fixed byte: ALL_ON 100, ALL_OFF 110,
  ONE_ON 101, ONE_OFF 111, TWO_ON 102, TWO_OFF 112, VERSION 90, STATUS 91. Packing never
  fails on them, and no two distinct symbols share a byte.
\<close>

theorem C3_wire_encoding:
  "encode (Inl ALL_ON) = Inr [100] \<and> encode (Inl ALL_OFF) = Inr [110] \<and>
   encode (Inl ONE_ON) = Inr [101] \<and> encode (Inl ONE_OFF) = Inr [111] \<and>
   encode (Inl TWO_ON) = Inr [102] \<and> encode (Inl TWO_OFF) = Inr [112] \<and>
   encode (Inr VERSION) = Inr [90] \<and> encode (Inr STATUS) = Inr [91] \<and>
   inj encode"
proof -
  have v: "encode (Inl ALL_ON) = Inr [100]" "encode (Inl ALL_OFF) = Inr [110]"
    "encode (Inl ONE_ON) = Inr [101]" "encode (Inl ONE_OFF) = Inr [111]"
    "encode (Inl TWO_ON) = Inr [102]" "encode (Inl TWO_OFF) = Inr [112]"
    "encode (Inr VERSION) = Inr [90]" "encode (Inr STATUS) = Inr [91]"
    by (simp_all add: encode_def pack_B_def)
  have "inj encode"
  proof (rule injI)
    fix a b assume "encode a = encode b"
    then show "a = b"
      apply (cases a; cases b)
      subgoal for x y by (cases x; cases y) (simp_all add: v)
      subgoal for x y by (cases x; cases y) (simp_all add: v)
      subgoal for x y by (cases x; cases y) (simp_all add: v)
      subgoal for x y by (cases x; cases y) (simp_all add: v)
      done
  qed
  with v show ?thesis by simp
qed

subsection \<open>The two queries\<close>

text \<open>
  C4. With the port open and \<^verbatim>\<open>write\<close> returning, \<^verbatim>\<open>version()\<close> adds to the line
  exactly one write of the single byte 90, the pause and one read of size 2, and returns
  what that read returned (or raises what it raised); \<^verbatim>\<open>status()\<close> does the same with
  byte 91 and a read of size 1. One iteration of the worker on
  \<^verbatim>\<open>{"action": "QUERY", "content": "VERSION"}\<close>, with a transport whose read returns the
  bytes 01 02, appends exactly those bytes to the output queue.
\<close>

theorem C4_queries:
  assumes "p_filedesc st = Some h"
  shows
   "(serial_write en (wire st) [90] = Inr w \<longrightarrow>
       version en st =
         (case serial_read en (wire st @ [EvWrite [90], EvSleep 100]) 2 of
            Inl e \<Rightarrow> Exc e (st\<lparr>wire := wire st @ [EvWrite [90], EvSleep 100, EvRead 2]\<rparr>)
          | Inr v \<Rightarrow> Ret v (st\<lparr>wire := wire st @ [EvWrite [90], EvSleep 100, EvRead 2]\<rparr>))) \<and>
    (serial_write en (wire st) [91] = Inr w' \<longrightarrow>
       status en st =
         (case serial_read en (wire st @ [EvWrite [91], EvSleep 100]) 1 of
            Inl e \<Rightarrow> Exc e (st\<lparr>wire := wire st @ [EvWrite [91], EvSleep 100, EvRead 1]\<rparr>)
          | Inr v \<Rightarrow> Ret v (st\<lparr>wire := wire st @ [EvWrite [91], EvSleep 100, EvRead 1]\<rparr>))) \<and>
    (p_input_queue st = Some qi \<and>
     items qi = ask (APIAction_name QUERY) (RelayQueries_name VERSION) # cs \<and>
     p_output_queue st = Some qo \<and>
     serial_write en (wire st) [90] = Inr w \<and>
     serial_read en (wire st @ [EvWrite [90], EvSleep 100]) 2 = Inr (VBytes [1, 2]) \<longrightarrow>
       iteration en st =
         Ret () (st\<lparr>p_input_queue := Some (qi\<lparr>items := cs\<rparr>),
                    wire := wire st @ [EvWrite [90], EvSleep 100, EvRead 2],
                    p_output_queue :=
                      Some (qo\<lparr>items := items qo @ [VBytes [1, 2]],
                               unfinished := unfinished qo + 1\<rparr>)\<rparr>))"
proof (intro conjI impI)
  assume "serial_write en (wire st) [90] = Inr w"
  then show "version en st =
         (case serial_read en (wire st @ [EvWrite [90], EvSleep 100]) 2 of
            Inl e \<Rightarrow> Exc e (st\<lparr>wire := wire st @ [EvWrite [90], EvSleep 100, EvRead 2]\<rparr>)
          | Inr v \<Rightarrow> Ret v (st\<lparr>wire := wire st @ [EvWrite [90], EvSleep 100, EvRead 2]\<rparr>))"
    using assms by (rule version_eq [rotated])
next
  assume "serial_write en (wire st) [91] = Inr w'"
  then show "status en st =
         (case serial_read en (wire st @ [EvWrite [91], EvSleep 100]) 1 of
            Inl e \<Rightarrow> Exc e (st\<lparr>wire := wire st @ [EvWrite [91], EvSleep 100, EvRead 1]\<rparr>)
          | Inr v \<Rightarrow> Ret v (st\<lparr>wire := wire st @ [EvWrite [91], EvSleep 100, EvRead 1]\<rparr>))"
    using assms by (rule status_eq [rotated])
next
  let ?c = "ask (APIAction_name QUERY) (RelayQueries_name VERSION)"
  let ?s1 = "st\<lparr>p_input_queue := Some (qi\<lparr>items := cs\<rparr>)\<rparr>"
  assume a: "p_input_queue st = Some qi \<and> items qi = ?c # cs \<and>
     p_output_queue st = Some qo \<and>
     serial_write en (wire st) [90] = Inr w \<and>
     serial_read en (wire st @ [EvWrite [90], EvSleep 100]) 2 = Inr (VBytes [1, 2])"
  have g: "queue_get st = Ret ?c ?s1"
    using a by (simp add: queue_get_def)
  have "analyse en ?s1 ?c =
      (case getattr_call en ?s1 (VStr (str_lower ''VERSION'')) of
        Exc e st' \<Rightarrow> Ret VNone (st'\<lparr>printed := printed st' @ [e]\<rparr>) | r \<Rightarrow> r)"
    unfolding ask_def
    by (subst analyse_accepted [where a = "VStr ''QUERY''"])
       (simp_all add: accepted_def try_body_eq)
  also have "getattr_call en ?s1 (VStr (str_lower ''VERSION'')) = version en ?s1"
    by (simp add: getattr_call_eq str_lower_names getattr_self_protocol)
  also have "version en ?s1 =
      Ret (VBytes [1, 2]) (?s1\<lparr>wire := wire st @ [EvWrite [90], EvSleep 100, EvRead 2]\<rparr>)"
    using a assms by (subst version_eq [where h = h and w = w]) simp_all
  finally have an: "analyse en ?s1 ?c =
      Ret (VBytes [1, 2]) (?s1\<lparr>wire := wire st @ [EvWrite [90], EvSleep 100, EvRead 2]\<rparr>)"
    by simp
  show "iteration en st =
         Ret () (st\<lparr>p_input_queue := Some (qi\<lparr>items := cs\<rparr>),
                    wire := wire st @ [EvWrite [90], EvSleep 100, EvRead 2],
                    p_output_queue :=
                      Some (qo\<lparr>items := items qo @ [VBytes [1, 2]],
                               unfinished := unfinished qo + 1\<rparr>)\<rparr>)"
    using a g an by (simp add: iteration_eq queue_put_def)
qed

theorem C4_queries_witness:
  "version mock_env (ready [ask ''QUERY'' ''VERSION'']) =
     Ret (VBytes [1, 2])
       ((ready [ask ''QUERY'' ''VERSION''])\<lparr>wire := [EvOpen mock_cfg, EvWrite [90], EvSleep 100, EvRead 2]\<rparr>) \<and>
   status mock_env (ready [ask ''QUERY'' ''VERSION'']) =
     Ret (VBytes [1])
       ((ready [ask ''QUERY'' ''VERSION''])\<lparr>wire := [EvOpen mock_cfg, EvWrite [91], EvSleep 100, EvRead 1]\<rparr>) \<and>
   p_output_queue (state_of (iteration mock_env (ready [ask ''QUERY'' ''VERSION'']))) =
     Some \<lparr>items = [VBytes [1, 2]], unfinished = 1\<rparr>"
  using C4_queries [of "ready [ask ''QUERY'' ''VERSION'']" mock_cfg mock_env "VInt 1" "VInt 1"
      "\<lparr>items = [ask ''QUERY'' ''VERSION''], unfinished = 1\<rparr>" "[]" "\<lparr>items = [], unfinished = 0\<rparr>"]
  by (simp add: ready_def mock_env_def)

subsection \<open>Setting a relay state\<close>

text \<open>
  C5. One iteration of the worker on \<^verbatim>\<open>{"action": "SET_STATE", "content": "ALL_ON"}\<close>,
  with the port open and \<^verbatim>\<open>write\<close> returning \<open>w\<close>: the line sees the write of
  exactly the byte string [100] and the pause, no read, and what is appended to the
  output queue is \<open>w\<close>, the return value of \<^verbatim>\<open>write\<close>.
\<close>

theorem C5_set_state_all_on:
  assumes "p_filedesc st = Some h"
    and "p_input_queue st = Some qi"
    and "items qi = ask (APIAction_name SET_STATE) (RelayStates_name ALL_ON) # cs"
    and "p_output_queue st = Some qo"
    and "serial_write en (wire st) [100] = Inr w"
  shows "iteration en st =
     Ret () (st\<lparr>p_input_queue := Some (qi\<lparr>items := cs\<rparr>),
                wire := wire st @ [EvWrite [100], EvSleep 100],
                p_output_queue :=
                  Some (qo\<lparr>items := items qo @ [w], unfinished := unfinished qo + 1\<rparr>)\<rparr>)"
proof -
  let ?c = "ask ''SET_STATE'' ''ALL_ON''"
  let ?s1 = "st\<lparr>p_input_queue := Some (qi\<lparr>items := cs\<rparr>)\<rparr>"
  have g: "queue_get st = Ret ?c ?s1"
    using assms by (simp add: queue_get_def)
  have "analyse en ?s1 ?c =
      (case getattr_call en ?s1 (VStr (str_lower ''ALL_ON'')) of
        Exc e st' \<Rightarrow> Ret VNone (st'\<lparr>printed := printed st' @ [e]\<rparr>) | r \<Rightarrow> r)"
    unfolding ask_def
    by (subst analyse_accepted [where a = "VStr ''SET_STATE''"])
       (simp_all add: accepted_def try_body_eq)
  also have "getattr_call en ?s1 (VStr (str_lower ''ALL_ON'')) = tmp_fct 100 en ?s1"
    by (simp add: getattr_call_eq str_lower_names getattr_self_protocol)
  also have "tmp_fct 100 en ?s1 = Ret w (?s1\<lparr>wire := wire st @ [EvWrite [100], EvSleep 100]\<rparr>)"
    using assms by (subst tmp_fct_eq [where h = h and bs = "[100]" and w = w]) (simp_all add: pack_B_def)
  finally have an: "analyse en ?s1 ?c =
      Ret w (?s1\<lparr>wire := wire st @ [EvWrite [100], EvSleep 100]\<rparr>)"
    by simp
  show ?thesis
    using assms g an by (simp add: iteration_eq queue_put_def)
qed

theorem C5_set_state_all_on_witness:
  "iteration mock_env (ready [ask ''SET_STATE'' ''ALL_ON'']) =
     Ret () ((ready [ask ''SET_STATE'' ''ALL_ON''])
       \<lparr>p_input_queue := Some \<lparr>items = [], unfinished = 1\<rparr>,
        wire := [EvOpen mock_cfg, EvWrite [100], EvSleep 100],
        p_output_queue := Some \<lparr>items = [VInt 1], unfinished = 1\<rparr>\<rparr>)"
  using C5_set_state_all_on [of "ready [ask ''SET_STATE'' ''ALL_ON'']" mock_cfg
      "\<lparr>items = [ask ''SET_STATE'' ''ALL_ON''], unfinished = 1\<rparr>" "[]"
      "\<lparr>items = [], unfinished = 0\<rparr>" mock_env "VInt 1"]
  by (simp add: ready_def mock_env_def)

subsection \<open>Order of the answers\<close>




subsection \<open>Opening the port\<close>

text \<open>
  C7. \<^verbatim>\<open>setup()\<close> returns \<^verbatim>\<open>True\<close> exactly when the constructor of the port,
  called with the stored device and baud rate, no parity, 8 data bits and 1 stop bit,
  does not raise, and then \<^verbatim>\<open>_filedesc\<close> holds that port. When the constructor
  raises, \<^verbatim>\<open>setup()\<close> returns \<^verbatim>\<open>False\<close>, \<^verbatim>\<open>_filedesc\<close> is what it was and nothing
  was opened on the line; on a fresh instance \<^verbatim>\<open>_filedesc\<close> is therefore still
  \<^verbatim>\<open>None\<close>.
\<close>

theorem C7_setup:
  "(fst (setup_relay en st) \<longleftrightarrow>
      serial_open en (wire st)
        \<lparr>port = p_device st, baudrate = p_bauds st, parity = PARITY_NONE,
          bytesize = 8, stopbits = 1\<rparr> = None) \<and>
   (fst (setup_relay en st) \<longrightarrow>
      p_filedesc (snd (setup_relay en st)) =
        Some \<lparr>port = p_device st, baudrate = p_bauds st, parity = PARITY_NONE,
               bytesize = 8, stopbits = 1\<rparr>) \<and>
   (\<not> fst (setup_relay en st) \<longrightarrow>
      p_filedesc (snd (setup_relay en st)) = p_filedesc st \<and>
      wire (snd (setup_relay en st)) = wire st) \<and>
   (\<not> fst (setup_relay en (LibRelay02_init d b)) \<longrightarrow>
      p_filedesc (snd (setup_relay en (LibRelay02_init d b))) = None)"
  by (simp add: setup_relay_def setup_cfg_def LibRelay02_init_def split: option.splits)

theorem C7_setup_witness:
  "\<not> fst (setup_relay dead_env (LibRelay02_init ''/dev/ttyACM0'' 115200)) \<and>
   p_filedesc (snd (setup_relay dead_env (LibRelay02_init ''/dev/ttyACM0'' 115200))) = None \<and>
   fst (setup_relay mock_env (LibRelay02_init ''/dev/ttyACM0'' 115200)) \<and>
   p_filedesc (snd (setup_relay mock_env (LibRelay02_init ''/dev/ttyACM0'' 115200))) = Some mock_cfg"
proof -
  have o: "serial_open dead_env w c = Some SerialException" "serial_open mock_env w c = None" for w c
    by (simp_all add: dead_env_def mock_env_def)
  show ?thesis
    using C7_setup [of dead_env "LibRelay02_init ''/dev/ttyACM0'' 115200" "''/dev/ttyACM0''" 115200]
      C7_setup [of mock_env "LibRelay02_init ''/dev/ttyACM0'' 115200" "''/dev/ttyACM0''" 115200]
    by (simp add: o mock_cfg_def LibRelay02_init_def)
qed

subsection \<open>Stopping\<close>

text \<open>
  C8. Once \<^verbatim>\<open>quit()\<close> has returned, the input queue is attached and empty, the
  only thing that happened on the line is the \<^verbatim>\<open>close\<close> of the port (no command
  that was waiting has been written), the output queue is untouched, \<^verbatim>\<open>_running\<close> is
  cleared, and the worker loop, entered from there, returns at once.
\<close>

theorem C8_quit_discards:
  assumes "quit en st = Ret v st'"
  shows "(\<exists>q. p_input_queue st' = Some q \<and> items q = []) \<and>
         wire st' = wire st @ [EvClose] \<and>
         p_output_queue st' = p_output_queue st \<and>
         \<not> p_running st' \<and>
         run en st' = Ret () st'"
proof -
  from quit_Ret [OF assms] obtain q h where
    "st' = st\<lparr>p_running := False,
              p_input_queue :=
                Some (q\<lparr>items := [], unfinished := snd (snd (clear_loop (items q) (unfinished q)))\<rparr>),
              wire := wire st @ [EvClose]\<rparr>"
    by blast
  then show ?thesis
    by (simp add: run_eq)
qed

theorem C8_quit_discards_witness:
  "quit mock_env (ready [ask ''SET_STATE'' ''ALL_ON'', ask ''QUERY'' ''STATUS'']) =
     Ret VNone ((ready [ask ''SET_STATE'' ''ALL_ON'', ask ''QUERY'' ''STATUS''])
       \<lparr>p_running := False, p_input_queue := Some \<lparr>items = [], unfinished = 0\<rparr>,
        wire := [EvOpen mock_cfg, EvClose]\<rparr>) \<and>
   p_output_queue (state_of (quit mock_env (ready [ask ''SET_STATE'' ''ALL_ON'', ask ''QUERY'' ''STATUS'']))) =
     Some \<lparr>items = [], unfinished = 0\<rparr> \<and>
   run mock_env (state_of (quit mock_env (ready [ask ''SET_STATE'' ''ALL_ON'', ask ''QUERY'' ''STATUS'']))) =
     Ret () (state_of (quit mock_env (ready [ask ''SET_STATE'' ''ALL_ON'', ask ''QUERY'' ''STATUS''])))"
proof -
  let ?st = "ready [ask ''SET_STATE'' ''ALL_ON'', ask ''QUERY'' ''STATUS'']"
  let ?st' = "?st\<lparr>p_running := False, p_input_queue := Some \<lparr>items = [], unfinished = 0\<rparr>,
        wire := [EvOpen mock_cfg, EvClose]\<rparr>"
  have q: "quit mock_env ?st = Ret VNone ?st'"
    by (simp add: quit_def ready_def clear_queue_def fd_close_def mock_env_def)
  show ?thesis
    using C8_quit_discards [OF q] q by (simp add: ready_def)
qed

subsection \<open>Action and content\<close>

text \<open>
  C9. The action is not tied to the content. Whenever the action is a string that
  has \<^verbatim>\<open>SET_STATE\<close> or \<^verbatim>\<open>QUERY\<close> somewhere inside it, \<^verbatim>\<open>_analyse\<close> calls the
  attribute named by the lowercased content, whatever the action was: the result depends
  on the content only. So \<^verbatim>\<open>SET_STATE\<close> with content \<^verbatim>\<open>VERSION\<close> runs the version
  query, and so does the action \<^verbatim>\<open>MY_QUERY_X\<close> with content \<^verbatim>\<open>Version\<close>.
\<close>

theorem C9_action_not_tied_to_content:
  "(map_of kvs ''action'' = Some (VStr a) \<and>
    (sublist (APIAction_name SET_STATE) a \<or> sublist (APIAction_name QUERY) a) \<and>
    map_of kvs ''content'' = Some (VStr c) \<longrightarrow>
      analyse en st (VDict kvs) =
        (case getattr_call en st (VStr (str_lower c)) of
           Exc e st' \<Rightarrow> Ret VNone (st'\<lparr>printed := printed st' @ [e]\<rparr>)
         | r \<Rightarrow> r)) \<and>
   analyse en st (ask (APIAction_name SET_STATE) (RelayQueries_name VERSION)) =
     (case version en st of
        Exc e st' \<Rightarrow> Ret VNone (st'\<lparr>printed := printed st' @ [e]\<rparr>)
      | r \<Rightarrow> r) \<and>
   analyse en st (ask ''MY_QUERY_X'' ''Version'') =
     analyse en st (ask (APIAction_name SET_STATE) (RelayQueries_name VERSION))"
proof -
  have gen: "analyse en st (VDict kvs) =
        (case getattr_call en st (VStr (str_lower c)) of
           Exc e st' \<Rightarrow> Ret VNone (st'\<lparr>printed := printed st' @ [e]\<rparr>)
         | r \<Rightarrow> r)"
    if "map_of kvs ''action'' = Some (VStr a)"
      and "sublist (APIAction_name SET_STATE) a \<or> sublist (APIAction_name QUERY) a"
      and "map_of kvs ''content'' = Some (VStr c)"
    for kvs a c
  proof -
    have "accepted (VStr a)"
      using that(2) by (auto simp: accepted_def str_contains_sublist)
    then show ?thesis
      using that by (simp add: analyse_accepted try_body_str)
  qed
  have v: "getattr_call en st (VStr (str_lower ''VERSION'')) = version en st"
    "getattr_call en st (VStr (str_lower ''Version'')) = version en st"
    by (simp_all add: getattr_call_eq str_lower_def lower_char_def getattr_self_protocol)
  have q: "sublist ''QUERY'' ''MY_QUERY_X''"
    by (simp add: str_contains_sublist [symmetric])
  have 1: "analyse en st (ask ''SET_STATE'' ''VERSION'') =
     (case version en st of
        Exc e st' \<Rightarrow> Ret VNone (st'\<lparr>printed := printed st' @ [e]\<rparr>)
      | r \<Rightarrow> r)"
    unfolding ask_def by (subst gen [where a = "''SET_STATE''" and c = "''VERSION''"]) (simp_all add: v)
  have 2: "analyse en st (ask ''MY_QUERY_X'' ''Version'') =
     (case version en st of
        Exc e st' \<Rightarrow> Ret VNone (st'\<lparr>printed := printed st' @ [e]\<rparr>)
      | r \<Rightarrow> r)"
    unfolding ask_def by (subst gen [where a = "''MY_QUERY_X''" and c = "''Version''"]) (simp_all add: v q)
  show ?thesis
    using gen 1 2 by simp
qed

theorem C9_action_not_tied_to_content_witness:
  "analyse mock_env (ready []) (ask ''SET_STATE'' ''VERSION'') =
     Ret (VBytes [1, 2])
       ((ready [])\<lparr>wire := [EvOpen mock_cfg, EvWrite [90], EvSleep 100, EvRead 2]\<rparr>) \<and>
   analyse mock_env (ready []) (ask ''xQUERYx'' ''aLL_oFF'') =
     Ret (VInt 1) ((ready [])\<lparr>wire := [EvOpen mock_cfg, EvWrite [110], EvSleep 100]\<rparr>)"
proof -
  have s: "sublist ''QUERY'' ''xQUERYx''"
    by (simp add: str_contains_sublist [symmetric])
  have t: "tmp_fct 110 mock_env (ready []) =
      Ret (VInt 1) ((ready [])\<lparr>wire := [EvOpen mock_cfg, EvWrite [110], EvSleep 100]\<rparr>)"
    by (subst tmp_fct_eq [where h = mock_cfg and bs = "[110]" and w = "VInt 1"])
       (simp_all add: ready_def mock_env_def pack_B_def)
  have v: "version mock_env (ready []) =
      Ret (VBytes [1, 2]) ((ready [])\<lparr>wire := [EvOpen mock_cfg, EvWrite [90], EvSleep 100, EvRead 2]\<rparr>)"
    by (subst version_eq [where h = mock_cfg and w = "VInt 1"])
       (simp_all add: ready_def mock_env_def)
  have l: "str_lower ''aLL_oFF'' = ''all_off''"
    by (simp add: str_lower_def lower_char_def)
  show ?thesis
    using C9_action_not_tied_to_content
      [of "[(''action'', VStr ''xQUERYx''), (''content'', VStr ''aLL_oFF'')]" "''xQUERYx''"
        "''aLL_oFF''" mock_env "ready []"] s
    by (simp add: ask_def l getattr_call_eq getattr_self_protocol t v)
qed

subsection \<open>What quit needs\<close>

text \<open>
  C10. \<^verbatim>\<open>quit()\<close> raises whenever the port was never opened or no input queue was
  attached; on a fresh instance it raises \<^verbatim>\<open>AttributeError\<close> with only \<^verbatim>\<open>_running\<close>
  cleared. With the port opened, an input queue attached whose counter of unfinished
  tasks covers its entries, and a \<^verbatim>\<open>close\<close> that does not raise, \<^verbatim>\<open>quit()\<close>
  returns.
\<close>

theorem C10_quit_precondition:
  "(p_filedesc st = None \<or> p_input_queue st = None \<longrightarrow> (\<exists>e s. quit en st = Exc e s)) \<and>
   quit en (LibRelay02_init d b) = Exc AttributeError ((LibRelay02_init d b)\<lparr>p_running := False\<rparr>) \<and>
   (p_filedesc st = Some h \<and> p_input_queue st = Some q \<and> length (items q) \<le> unfinished q \<and>
    serial_close en (wire st) = None \<longrightarrow> (\<exists>s. quit en st = Ret VNone s))"
proof (intro conjI impI)
  assume a: "p_filedesc st = None \<or> p_input_queue st = None"
  show "\<exists>e s. quit en st = Exc e s"
  proof (cases "quit en st")
    case (Ret v s)
    from quit_Ret [OF Ret] a show ?thesis by auto
  next
    case (Blocks s)
    then show ?thesis
      by (auto simp: quit_def fd_close_def Let_def split: option.splits prod.splits)
  qed auto
next
  show "quit en (LibRelay02_init d b) = Exc AttributeError ((LibRelay02_init d b)\<lparr>p_running := False\<rparr>)"
    by (simp add: quit_def LibRelay02_init_def)
next
  assume "p_filedesc st = Some h \<and> p_input_queue st = Some q \<and> length (items q) \<le> unfinished q \<and>
    serial_close en (wire st) = None"
  then show "\<exists>s. quit en st = Ret VNone s"
    by (simp add: quit_def clear_queue_def clear_loop_enough fd_close_def)
qed

theorem C10_quit_precondition_witness:
  "quit mock_env (snd (setup_relay mock_env (LibRelay02_init ''/dev/ttyACM0'' 115200))) =
     Exc AttributeError ((snd (setup_relay mock_env (LibRelay02_init ''/dev/ttyACM0'' 115200)))\<lparr>p_running := False\<rparr>) \<and>
   (\<exists>s. quit mock_env (ready []) = Ret VNone s)"
proof -
  let ?s = "snd (setup_relay mock_env (LibRelay02_init ''/dev/ttyACM0'' 115200))"
  have n: "p_input_queue ?s = None"
    by (simp add: setup_relay_def LibRelay02_init_def mock_env_def)
  have e: "quit mock_env ?s = Exc AttributeError (?s\<lparr>p_running := False\<rparr>)"
    using n by (simp add: quit_def)
  have "\<exists>e s. quit mock_env ?s = Exc e s"
    using C10_quit_precondition [of ?s mock_env] n by simp
  moreover have "\<exists>s. quit mock_env (ready []) = Ret VNone s"
    using C10_quit_precondition [of "ready []" mock_env _ _ mock_cfg "\<lparr>items = [], unfinished = 0\<rparr>"]
    by (simp add: ready_def mock_env_def)
  ultimately show ?thesis using e by simp
qed

end
